theory Spec2Isabelle
  imports Complex_Main
begin

section \<open>Data model\<close>

text \<open>
  The persisted documents of the Mongoose schemas (modal/lead-modal.js and the schema
  files beside it). An ObjectId value is a natural number. Timestamps are milliseconds
  since the epoch, what \<open>Date.getTime()\<close> returns. Fields the schema does not
  require are options; \<open>None\<close> is JavaScript's undefined or null. A string is the
  sequence of the bytes of its UTF-8 encoding.
\<close>

type_synonym oid = nat

datatype userRole = Admin | Member

datatype status = Resolved | Unresolved

datatype sendBy = Lead | Member_sender

record user =
  user_id :: oid
  userRole :: userRole
  parent :: "oid option"

record lead =
  lead_id :: oid
  ticketID :: string
  userName :: "string option"
  userEmail :: "string option"
  userPhone :: "string option"
  isMissedChat :: bool
  responseTime :: int
  currentAssignee :: "oid option"
  assigneeList :: "oid list"
  isFirstMessageShared :: bool
  isDetailsShared :: bool
  status :: status
  createdAt :: int

record leadConversation =
  conversation_id :: oid
  leadID :: oid
  message :: string
  sendBy :: sendBy
  assigneeID :: "oid option"

record missedChatTimer =
  hour :: "int option"
  minute :: "int option"
  second :: "int option"

record formPlaceholder =
  placeholder_name :: "string option"
  placeholder_email :: "string option"
  placeholder_phone :: "string option"
  placeholder_submitButton :: "string option"

record chatbotSettings =
  headerColor :: string
  backgroundColor :: string
  customizedMessages :: "string list"
  formPlaceholder :: formPlaceholder
  welcomeMessage :: "string option"
  missedChatTimer :: "missedChatTimer option"

text \<open>
  The database: one list per collection, in insertion order, and the supply of new
  ObjectId values.
\<close>

record db =
  users :: "user list"
  leads :: "lead list"
  conversations :: "leadConversation list"
  settings :: "chatbotSettings list"
  nextObjectId :: oid

text \<open>
  The errors the handlers pass to \<open>next\<close>, named after the \<open>RouteCode\<close> keys
  they use; \<open>TypeError\<close> is a property read on null, \<open>MongoServerError\<close>
  carries the server's error code.
\<close>

datatype error =
    BAD_REQUEST
  | MISSING_REQ_PARAMS
  | CONFLICT
  | UNAUTHORIZED
  | NOT_FOUND
  | EXPECTATION_FAILED
  | LOGOUT_REQESTED
  | TypeError
  | ValidationError
  | MongoServerError nat

text \<open>
  What \<open>new Date()\<close> reads: the instant, and the calendar fields of the local date
  (\<open>getMonth\<close> counts from 0).
\<close>

record jsDate =
  getTime :: int
  getFullYear :: nat
  getMonth :: nat
  getDate :: nat

section \<open>Ticket sequencer (controller/lead.js)\<close>

text \<open>Template-literal conversion of a non-negative integer: its decimal digits.\<close>

definition digit :: "nat \<Rightarrow> char" where
  "digit n = char_of (48 + n)"

fun String :: "nat \<Rightarrow> string" where
  "String n = (if n < 10 then [digit n] else String (n div 10) @ [digit (n mod 10)])"

declare String.simps [simp del]

text \<open>\<open>n > 9 ? n : '0' + n\<close>, used for the month, the day and the suffix.\<close>

definition pad2 :: "nat \<Rightarrow> string" where
  "pad2 n = (if n > 9 then String n else ''0'' @ String n)"

definition baseTicketID :: "jsDate \<Rightarrow> string" where
  "baseTicketID d =
     (let fullYear = getFullYear d; month = getMonth d + 1; day = getDate d
      in String fullYear @ ''-'' @ pad2 month @ pad2 day)"

definition suffixed :: "string \<Rightarrow> nat \<Rightarrow> string" where
  "suffixed base count = base @ ''-'' @ pad2 count"

text \<open>\<open>Lead.findOne({ ticketID })\<close>: the first lead holding the code, if any.\<close>

definition Lead_findOne_ticketID :: "string \<Rightarrow> lead list \<Rightarrow> lead option" where
  "Lead_findOne_ticketID t ls = find (\<lambda>l. ticketID l = t) ls"

text \<open>
  Reads a digit string back; together with \<open>pending\<close> it is the measure of the loop
  below: the counts not yet probed whose code a lead holds.
\<close>

definition parse_digits :: "string \<Rightarrow> nat" where
  "parse_digits cs = foldl (\<lambda>a c. 10 * a + (of_char c - 48)) 0 cs"

definition pending :: "lead list \<Rightarrow> string \<Rightarrow> nat \<Rightarrow> nat set" where
  "pending ls base count = {k. count \<le> k \<and> suffixed base k \<in> ticketID ` set ls}"

text \<open>
  The \<open>while (foundLead)\<close> loop of \<open>getTicketID\<close>; its state is the candidate
  \<open>ticketID\<close> and \<open>count\<close>, and \<open>foundLead\<close> is the lookup of the candidate.
  It ends because the leads are finitely many and distinct counts give distinct codes.
\<close>

function getTicketID_loop :: "lead list \<Rightarrow> string \<Rightarrow> string \<Rightarrow> nat \<Rightarrow> string" where
  "getTicketID_loop ls base t count =
     (if Lead_findOne_ticketID t ls \<noteq> None
      then getTicketID_loop ls base (suffixed base count) (Suc count)
      else t)"
  by pat_completeness auto
termination
proof -
  have digits: "parse_digits (String n) = n" for n
  proof (induction n rule: String.induct)
    case (1 n)
    show ?case
    proof (cases "n < 10")
      case True
      then show ?thesis
        by (subst String.simps) (simp add: parse_digits_def digit_def)
    next
      case False
      have "parse_digits (String n) =
              10 * parse_digits (String (n div 10)) + (of_char (digit (n mod 10)) - 48)"
        using False by (subst String.simps) (simp add: parse_digits_def)
      also have "\<dots> = 10 * (n div 10) + n mod 10"
        using False "1.IH" by (simp add: digit_def)
      finally show ?thesis by simp
    qed
  qed
  have padded: "parse_digits (pad2 n) = n" for n
  proof -
    have "parse_digits (''0'' @ String n) = parse_digits (String n)"
      by (simp add: parse_digits_def)
    then show ?thesis by (simp add: pad2_def digits)
  qed
  have inj: "inj (suffixed base)" for base
  proof (rule injI)
    fix a b assume "suffixed base a = suffixed base b"
    then have "pad2 a = pad2 b" by (simp add: suffixed_def)
    then show "a = b" by (metis padded)
  qed
  have fin: "finite (pending ls base count)" for ls base count
  proof -
    have "finite (suffixed base -` (ticketID ` set ls))"
      by (rule finite_vimageI) (simp_all add: inj)
    moreover have "pending ls base count \<subseteq> suffixed base -` (ticketID ` set ls)"
      by (auto simp: pending_def)
    ultimately show ?thesis by (rule rev_finite_subset)
  qed
  have unfold: "pending ls base count =
       (if suffixed base count \<in> ticketID ` set ls
        then insert count (pending ls base (Suc count)) else pending ls base (Suc count))"
    for ls base count
    by (auto simp: pending_def Suc_le_eq le_less)
  show ?thesis
  proof (relation "measure (\<lambda>(ls, base, t, count).
           (if t \<in> ticketID ` set ls then 1 else 0) + card (pending ls base count))")
    show "wf (measure (\<lambda>(ls, base, t, count).
           (if t \<in> ticketID ` set ls then 1 else 0) + card (pending ls base count)))"
      by simp
  next
    fix ls :: "lead list" and base t :: string and count :: nat
    assume "Lead_findOne_ticketID t ls \<noteq> None"
    then have held: "t \<in> ticketID ` set ls"
      by (auto simp: Lead_findOne_ticketID_def find_None_iff)
    have "count \<notin> pending ls base (Suc count)"
      by (simp add: pending_def)
    then have "(if suffixed base count \<in> ticketID ` set ls then 1 else 0)
                 + card (pending ls base (Suc count)) = card (pending ls base count)"
      using fin [of ls base "Suc count"] by (subst (2) unfold) simp
    with held show "((ls, base, suffixed base count, Suc count), (ls, base, t, count))
          \<in> measure (\<lambda>(ls, base, t, count).
           (if t \<in> ticketID ` set ls then 1 else 0) + card (pending ls base count))"
      by simp
  qed
qed

declare getTicketID_loop.simps [simp del]

definition getTicketID :: "jsDate \<Rightarrow> lead list \<Rightarrow> string" where
  "getTicketID d ls = getTicketID_loop ls (baseTicketID d) (baseTicketID d) 1"


section \<open>Queries and saves (Mongoose)\<close>

definition User_findById :: "oid \<Rightarrow> db \<Rightarrow> user option" where
  "User_findById i s = find (\<lambda>u. user_id u = i) (users s)"

text \<open>\<open>User.findOne({ userRole: 'Admin' })\<close>.\<close>

definition User_findOne_Admin :: "db \<Rightarrow> user option" where
  "User_findOne_Admin s = find (\<lambda>u. userRole u = Admin) (users s)"

definition Lead_findById :: "oid \<Rightarrow> db \<Rightarrow> lead option" where
  "Lead_findById i s = find (\<lambda>l. lead_id l = i) (leads s)"

text \<open>\<open>ChatbotSettings.findOne()\<close>: the first settings document.\<close>

definition ChatbotSettings_findOne :: "db \<Rightarrow> chatbotSettings option" where
  "ChatbotSettings_findOne s = (case settings s of [] \<Rightarrow> None | c # _ \<Rightarrow> Some c)"

text \<open>\<open>foundLead.save()\<close> on a document that was found: the stored document with its id is replaced.\<close>

fun replace_lead :: "lead \<Rightarrow> lead list \<Rightarrow> lead list" where
  "replace_lead d [] = []"
| "replace_lead d (l # ls) = (if lead_id l = lead_id d then d # ls else l # replace_lead d ls)"

definition Lead_save :: "lead \<Rightarrow> db \<Rightarrow> db" where
  "Lead_save d s = s\<lparr>leads := replace_lead d (leads s)\<rparr>"

text \<open>\<open>new LeadConversation({...}).save()\<close>: a new document with a new id.\<close>

definition LeadConversation_create :: "oid \<Rightarrow> string \<Rightarrow> sendBy \<Rightarrow> oid option \<Rightarrow> db \<Rightarrow> db" where
  "LeadConversation_create l m by a s =
     s\<lparr>conversations := conversations s @
          [\<lparr>conversation_id = nextObjectId s, leadID = l, message = m, sendBy = by, assigneeID = a\<rparr>],
       nextObjectId := nextObjectId s + 1\<rparr>"

text \<open>
  util/reqUser.js: the user of the verified token. When the user is gone it passes the
  logout error to \<open>next\<close> and returns null.
\<close>

definition getReqUser :: "oid \<Rightarrow> db \<Rightarrow> user option" where
  "getReqUser i s = User_findById i s"

text \<open>A handler's outcome: what it passes to \<open>next\<close> or answers, and the database it leaves.\<close>

type_synonym 'a outcome = "(error + 'a) \<times> db"

text \<open>\<open>!v\<close> on a string field of the request body: absent or empty.\<close>

definition falsy :: "string option \<Rightarrow> bool" where
  "falsy v = (case v of None \<Rightarrow> True | Some x \<Rightarrow> x = [])"

section \<open>Lead intake (controller/lead.js)\<close>

definition postNewLead :: "jsDate \<Rightarrow> string option \<Rightarrow> db \<Rightarrow> oid outcome" where
  "postNewLead now msg s =
     (if falsy msg then (Inl BAD_REQUEST, s)
      else case User_findOne_Admin s of
        None \<Rightarrow> (Inl UNAUTHORIZED, s)
      | Some foundAdmin \<Rightarrow>
          let newLead = \<lparr>lead_id = nextObjectId s,
                 ticketID = getTicketID now (leads s),
                 userName = None, userEmail = None, userPhone = None,
                 isMissedChat = False, responseTime = 0,
                 currentAssignee = Some (user_id foundAdmin),
                 assigneeList = [user_id foundAdmin],
                 isFirstMessageShared = True, isDetailsShared = False,
                 status = Unresolved, createdAt = getTime now\<rparr>;
              s1 = s\<lparr>leads := leads s @ [newLead], nextObjectId := nextObjectId s + 1\<rparr>
          in (Inr (lead_id newLead), LeadConversation_create (lead_id newLead) (the msg) Lead None s1))"

text \<open>
  \<open>String.prototype.trim\<close> removes white space and line terminators from both ends:
  U+0009 to U+000D, U+0020, U+00A0, U+1680, U+2000 to U+200A, U+2028, U+2029, U+202F,
  U+205F, U+3000 and U+FEFF, here in their UTF-8 encodings of one, two and three bytes.
\<close>

definition space1 :: "char \<Rightarrow> bool" where
  "space1 a = (a \<in> set [CHR 0x09, CHR 0x0A, CHR 0x0B, CHR 0x0C, CHR 0x0D, CHR 0x20])"

definition space2 :: "char \<Rightarrow> char \<Rightarrow> bool" where
  "space2 a b = (a = CHR 0xC2 \<and> b = CHR 0xA0)"

definition space3 :: "char \<Rightarrow> char \<Rightarrow> char \<Rightarrow> bool" where
  "space3 a b c =
     (a = CHR 0xE1 \<and> b = CHR 0x9A \<and> c = CHR 0x80
      \<or> a = CHR 0xE2 \<and> b = CHR 0x80
          \<and> (0x80 \<le> (of_char c :: nat) \<and> (of_char c :: nat) \<le> 0x8A
               \<or> c \<in> set [CHR 0xA8, CHR 0xA9, CHR 0xAF])
      \<or> a = CHR 0xE2 \<and> b = CHR 0x81 \<and> c = CHR 0x9F
      \<or> a = CHR 0xE3 \<and> b = CHR 0x80 \<and> c = CHR 0x80
      \<or> a = CHR 0xEF \<and> b = CHR 0xBB \<and> c = CHR 0xBF)"

fun trimStart :: "string \<Rightarrow> string" where
  "trimStart (a # b # c # cs) =
     (if space1 a then trimStart (b # c # cs)
      else if space2 a b then trimStart (c # cs)
      else if space3 a b c then trimStart cs
      else a # b # c # cs)"
| "trimStart [a, b] = (if space1 a then trimStart [b] else if space2 a b then [] else [a, b])"
| "trimStart [a] = (if space1 a then [] else [a])"
| "trimStart [] = []"

text \<open>The same from the end; the argument is the string reversed, last byte first.\<close>

fun trimEnd_reversed :: "string \<Rightarrow> string" where
  "trimEnd_reversed (c # b # a # cs) =
     (if space1 c then trimEnd_reversed (b # a # cs)
      else if space2 b c then trimEnd_reversed (a # cs)
      else if space3 a b c then trimEnd_reversed cs
      else c # b # a # cs)"
| "trimEnd_reversed [c, b] =
     (if space1 c then trimEnd_reversed [b] else if space2 b c then [] else [c, b])"
| "trimEnd_reversed [c] = (if space1 c then [] else [c])"
| "trimEnd_reversed [] = []"

definition trim :: "string \<Rightarrow> string" where
  "trim x = rev (trimEnd_reversed (rev (trimStart x)))"

definition postLeadForm ::
  "oid option \<Rightarrow> string option \<Rightarrow> string option \<Rightarrow> string option \<Rightarrow> db \<Rightarrow> unit outcome" where
  "postLeadForm body_leadID name email phone s =
     (if body_leadID = None \<or> falsy name \<or> falsy email \<or> falsy phone then (Inl BAD_REQUEST, s)
      else case Lead_findById (the body_leadID) s of
        None \<Rightarrow> (Inl NOT_FOUND, s)
      | Some foundLead \<Rightarrow>
          (Inr (), Lead_save (foundLead\<lparr>userName := Some (trim (the name)),
                                       userEmail := Some (trim (the email)),
                                       userPhone := Some (trim (the phone)),
                                       isDetailsShared := True\<rparr>) s))"

definition putLeadMessage :: "oid option \<Rightarrow> string option \<Rightarrow> db \<Rightarrow> unit outcome" where
  "putLeadMessage body_leadID msg s =
     (if body_leadID = None \<or> falsy msg then (Inl BAD_REQUEST, s)
      else case Lead_findById (the body_leadID) s of
        None \<Rightarrow> (Inl NOT_FOUND, s)
      | Some foundLead \<Rightarrow> (Inr (), LeadConversation_create (lead_id foundLead) (the msg) Lead None s))"


section \<open>Update documents (MongoDB)\<close>

text \<open>
  The update documents the source writes for \<open>updateMany\<close>: a list of operators, each on
  one path with one value. A plain \<open>{ path: value }\<close> is \<open>$set\<close>. The server parses
  the update before it touches a document and rejects one in which two operators name
  the same path (error code 40, ConflictingUpdateOperators: "Updating the path ... would
  create a conflict").
\<close>

datatype path = isMissedChat_path | currentAssignee_path | assigneeList_path

datatype bson = Boolean bool | ObjectId oid

datatype update_operator = Set_op path bson | Pull_op path bson | AddToSet_op path bson

fun operator_path :: "update_operator \<Rightarrow> path" where
  "operator_path (Set_op p v) = p"
| "operator_path (Pull_op p v) = p"
| "operator_path (AddToSet_op p v) = p"

definition conflicting :: "update_operator list \<Rightarrow> bool" where
  "conflicting u = (\<not> distinct (map operator_path u))"

text \<open>One operator on a lead; \<open>$addToSet\<close> appends the value unless the array holds it.\<close>

fun apply_to_lead :: "update_operator \<Rightarrow> lead \<Rightarrow> lead" where
  "apply_to_lead (Set_op isMissedChat_path (Boolean b)) l = l\<lparr>isMissedChat := b\<rparr>"
| "apply_to_lead (Set_op currentAssignee_path (ObjectId i)) l = l\<lparr>currentAssignee := Some i\<rparr>"
| "apply_to_lead (Pull_op assigneeList_path (ObjectId i)) l =
     l\<lparr>assigneeList := removeAll i (assigneeList l)\<rparr>"
| "apply_to_lead (AddToSet_op assigneeList_path (ObjectId i)) l =
     (if i \<in> set (assigneeList l) then l else l\<lparr>assigneeList := assigneeList l @ [i]\<rparr>)"
| "apply_to_lead _ l = l"

definition updateMany ::
  "('d \<Rightarrow> bool) \<Rightarrow> (update_operator \<Rightarrow> 'd \<Rightarrow> 'd) \<Rightarrow> update_operator list \<Rightarrow> 'd list \<Rightarrow> error + 'd list" where
  "updateMany query app u ds =
     (if conflicting u then Inl (MongoServerError 40)
      else Inr (map (\<lambda>d. if query d then fold app u d else d) ds))"

section \<open>Tickets (controller/chat.js)\<close>

definition cast_status :: "string \<Rightarrow> status option" where
  "cast_status x =
     (if x = ''Resolved'' then Some Resolved
      else if x = ''Unresolved'' then Some Unresolved else None)"

definition putStatusUpdate :: "oid \<Rightarrow> oid option \<Rightarrow> string option \<Rightarrow> db \<Rightarrow> unit outcome" where
  "putStatusUpdate reqUser body_leadID body_status s =
     (if body_leadID = None \<or> falsy body_status then (Inl MISSING_REQ_PARAMS, s)
      else case getReqUser reqUser s of
        None \<Rightarrow> (Inl LOGOUT_REQESTED, s)
      | Some foundUser \<Rightarrow>
         (case Lead_findById (the body_leadID) s of
            None \<Rightarrow> (Inl NOT_FOUND, s)
          | Some foundLead \<Rightarrow>
             (case currentAssignee foundLead of
                None \<Rightarrow> (Inl TypeError, s)
              | Some a \<Rightarrow>
                 if a \<noteq> user_id foundUser then (Inl UNAUTHORIZED, s)
                 else (case cast_status (the body_status) of
                         None \<Rightarrow> (Inl ValidationError, s)
                       | Some st \<Rightarrow> (Inr (), Lead_save (foundLead\<lparr>status := st\<rparr>) s)))))"

text \<open>
  A document a query returns is hydrated anew, and its \<open>_id\<close> is an ObjectId object
  of its own in the JavaScript heap. \<open>a !== b\<close> on two objects compares which objects
  they are; \<open>a.toString() !== b.toString()\<close> compares their values.
\<close>

record objectId =
  address :: nat
  hexString :: oid

definition strict_not_equal :: "objectId \<Rightarrow> objectId \<Rightarrow> bool" where
  "strict_not_equal a b = (address a \<noteq> address b)"

text \<open>
  \<open>putLeadAssignee\<close>; \<open>heap\<close> is the next free address when the handler starts. The
  user of \<open>getReqUser\<close> and the admin of \<open>User.findOne\<close> come from two queries.
\<close>

definition putLeadAssignee :: "nat \<Rightarrow> oid \<Rightarrow> oid option \<Rightarrow> oid option \<Rightarrow> db \<Rightarrow> unit outcome" where
  "putLeadAssignee heap reqUser body_leadID body_assigneeID s =
     (if body_leadID = None \<or> body_assigneeID = None then (Inl CONFLICT, s)
      else case getReqUser reqUser s of
        None \<Rightarrow> (Inl LOGOUT_REQESTED, s)
      | Some foundUser \<Rightarrow>
         (case User_findOne_Admin s of
            None \<Rightarrow> (Inl UNAUTHORIZED, s)
          | Some foundAdmin \<Rightarrow>
             let foundUser_id = \<lparr>address = heap, hexString = user_id foundUser\<rparr>;
                 foundAdmin_id = \<lparr>address = heap + 1, hexString = user_id foundAdmin\<rparr>
             in if strict_not_equal foundUser_id foundAdmin_id then (Inl UNAUTHORIZED, s)
                else (case Lead_findById (the body_leadID) s of
                        None \<Rightarrow> (Inl NOT_FOUND, s)
                      | Some foundLead \<Rightarrow>
                         (case User_findById (the body_assigneeID) s of
                            None \<Rightarrow> (Inl NOT_FOUND, s)
                          | Some foundAssignee \<Rightarrow>
                             (Inr (), Lead_save (foundLead\<lparr>
                                 currentAssignee := Some (user_id foundAssignee),
                                 assigneeList := user_id foundAssignee # assigneeList foundLead\<rparr>) s)))))"

text \<open>
  \<open>const { hour = 0, minute = 0, second = 0 } = chatbotSettings.missedChatTimer || {}\<close>
  and the conversion to milliseconds.
\<close>

definition missedTimerMs :: "chatbotSettings \<Rightarrow> int" where
  "missedTimerMs cs =
     (let t = (case missedChatTimer cs of
                 None \<Rightarrow> \<lparr>hour = None, minute = None, second = None\<rparr> | Some t \<Rightarrow> t);
          h = (case hour t of None \<Rightarrow> 0 | Some v \<Rightarrow> v);
          m = (case minute t of None \<Rightarrow> 0 | Some v \<Rightarrow> v);
          sec = (case second t of None \<Rightarrow> 0 | Some v \<Rightarrow> v)
      in ((h * 60 * 60) + (m * 60) + sec) * 1000)"

definition putMessage :: "jsDate \<Rightarrow> oid \<Rightarrow> oid option \<Rightarrow> string option \<Rightarrow> db \<Rightarrow> unit outcome" where
  "putMessage now reqUser body_leadID body_message s =
     (if body_leadID = None \<or> falsy body_message then (Inl BAD_REQUEST, s)
      else case getReqUser reqUser s of
        None \<Rightarrow> (Inl LOGOUT_REQESTED, s)
      | Some foundUser \<Rightarrow>
         (case Lead_findById (the body_leadID) s of
            None \<Rightarrow> (Inl NOT_FOUND, s)
          | Some foundLead \<Rightarrow>
             (case currentAssignee foundLead of
                None \<Rightarrow> (Inl TypeError, s)
              | Some a \<Rightarrow>
                 if a \<noteq> user_id foundUser then (Inl UNAUTHORIZED, s)
                 else
                   let isFirstMessage = (responseTime foundLead = 0);
                       responseTimeInMs = getTime now - createdAt foundLead;
                       lead1 = (if isFirstMessage
                                then foundLead\<lparr>responseTime := responseTimeInMs div 1000\<rparr>
                                else foundLead)
                   in (case ChatbotSettings_findOne s of
                         None \<Rightarrow> (Inl NOT_FOUND, s)
                       | Some chatbotSettings \<Rightarrow>
                          let timerMs = missedTimerMs chatbotSettings;
                              lead2 = (if timerMs > 0 \<and> responseTimeInMs > timerMs
                                       then lead1\<lparr>isMissedChat := True\<rparr> else lead1)
                          in (Inr (), LeadConversation_create (lead_id foundLead) (the body_message)
                                        Member_sender (Some (user_id foundUser)) (Lead_save lead2 s))))))"

definition foundMissedChats :: "jsDate \<Rightarrow> db \<Rightarrow> unit outcome" where
  "foundMissedChats now s =
     (case ChatbotSettings_findOne s of
        None \<Rightarrow> (Inl NOT_FOUND, s)
      | Some chatbotSettings \<Rightarrow>
         let timerMs = missedTimerMs chatbotSettings
         in if timerMs > 0
            then let thresholdTime = getTime now - timerMs
                 in (case updateMany
                            (\<lambda>l. responseTime l = 0 \<and> isMissedChat l = False \<and> createdAt l < thresholdTime)
                            apply_to_lead [Set_op isMissedChat_path (Boolean True)] (leads s) of
                       Inl e \<Rightarrow> (Inl e, s)
                     | Inr ls \<Rightarrow> (Inr (), s\<lparr>leads := ls\<rparr>))
            else (Inr (), s))"


section \<open>Analytics (controller/lead.js)\<close>

text \<open>
  \<open>getLeadsAnalytics\<close>: the count of the leads and the average response time, without
  the resolved percentage and the weekly graph. The sum and the count of the response
  times are integers, and their one quotient is modelled exactly, as a rational;
  \<open>Math.round\<close> rounds to the nearest integer, a half towards plus infinity.
\<close>

record analytics =
  totalLeads :: nat
  averateResponseTime :: int

definition Math_round :: "rat \<Rightarrow> int" where
  "Math_round x = \<lfloor>x + 1 / 2\<rfloor>"

record responseData =
  sum_acc :: int
  count_acc :: nat

definition reducer :: "responseData \<Rightarrow> lead \<Rightarrow> responseData" where
  "reducer acc l =
     (if responseTime l \<noteq> 0
      then \<lparr>sum_acc = sum_acc acc + responseTime l, count_acc = count_acc acc + 1\<rparr> else acc)"

definition getLeadsAnalytics :: "db \<Rightarrow> analytics" where
  "getLeadsAnalytics s =
     (let totalLeadCount = length (leads s);
          responseData = foldl reducer \<lparr>sum_acc = 0, count_acc = 0\<rparr> (leads s);
          average = (if count_acc responseData > 0
                     then of_int (sum_acc responseData) / of_nat (count_acc responseData) else 0)
      in \<lparr>totalLeads = totalLeadCount, averateResponseTime = Math_round average\<rparr>)"

section \<open>Chatbot settings (controller/settings.js)\<close>

definition default_welcomeMessage :: string where
  "default_welcomeMessage =
     [CHR 0xF0, CHR 0x9F, CHR 0x91, CHR 0x8B] @
     '' Want to chat about Hubly? I'' @ [CHR 0x27] @ ''m a chatbot here to help you find your way.''"

definition defaultSettings :: chatbotSettings where
  "defaultSettings =
     \<lparr>headerColor = ''#33475B'', backgroundColor = ''#EEEEEE'',
      customizedMessages = [''How can i help you?'', ''Ask me anything!''],
      formPlaceholder = \<lparr>placeholder_name = Some ''Your name'',
                          placeholder_email = Some ''example@gmail.com'',
                          placeholder_phone = Some ''+1 (000) 000-0000'',
                          placeholder_submitButton = Some ''Thank You!''\<rparr>,
      welcomeMessage = Some default_welcomeMessage,
      missedChatTimer = Some \<lparr>hour = Some 1, minute = Some 0, second = Some 0\<rparr>\<rparr>"

definition loadDefaultSettings :: "db \<Rightarrow> db" where
  "loadDefaultSettings s = s\<lparr>settings := settings s @ [defaultSettings]\<rparr>"

text \<open>The request body of \<open>putChatBotSettings\<close>; a key that is absent is \<open>None\<close>.\<close>

record formPlaceholder_body =
  body_name :: "string option"
  body_email :: "string option"
  body_phone :: "string option"
  body_submitButton :: "string option"
  nested_welcomeMessage :: "string option"

record settings_body =
  body_headerColor :: "string option"
  body_backgroundColor :: "string option"
  body_customizedMessages :: "string list option"
  body_formPlaceholder :: "formPlaceholder_body option"
  body_welcomeMessage :: "string option"
  body_missedChatTimer :: "missedChatTimer option"

text \<open>\<open>a ?? b\<close>.\<close>

definition nullish :: "'a option \<Rightarrow> 'a \<Rightarrow> 'a" where
  "nullish a b = (case a of None \<Rightarrow> b | Some v \<Rightarrow> v)"

definition putChatBotSettings :: "settings_body \<Rightarrow> db \<Rightarrow> unit outcome" where
  "putChatBotSettings body s =
     (if falsy (body_headerColor body) \<or> falsy (body_backgroundColor body)
         \<or> body_customizedMessages body = None \<or> body_formPlaceholder body = None
         \<or> falsy (body_welcomeMessage body) \<or> body_missedChatTimer body = None
      then (Inl CONFLICT, s)
      else
        let fp = the (body_formPlaceholder body);
            timer = the (body_missedChatTimer body);
            update = \<lparr>headerColor = the (body_headerColor body),
                      backgroundColor = the (body_backgroundColor body),
                      customizedMessages = the (body_customizedMessages body),
                      formPlaceholder =
                        \<lparr>placeholder_name = Some (nullish (body_name fp) ''Your name''),
                         placeholder_email = Some (nullish (body_email fp) ''+1 (000) 000-0000''),
                         placeholder_phone = Some (nullish (body_phone fp) ''example@gmail.com''),
                         placeholder_submitButton = Some (nullish (body_submitButton fp) ''Thank You!'')\<rparr>,
                      welcomeMessage = Some (nullish (nested_welcomeMessage fp) default_welcomeMessage),
                      missedChatTimer = Some \<lparr>hour = hour timer, minute = minute timer,
                                               second = second timer\<rparr>\<rparr>
        in (case settings s of
              [] \<Rightarrow> (Inl EXPECTATION_FAILED, loadDefaultSettings s)
            | c # cs \<Rightarrow> (Inr (), s\<lparr>settings := update # cs\<rparr>)))"

section \<open>Deleting documents (modal/lead-modal.js, modal/user-modal.js, controller/auth.js)\<close>

text \<open>
  Both schema files register their \<open>pre('deleteOne')\<close> hook after
  \<open>mongoose.model\<close> has compiled the schema. Mongoose takes a model's middleware from
  the schema when it compiles it, so a \<open>deleteOne\<close> on a document runs neither hook: the
  document goes and no other document is written. For a lead the conversation turns
  stay; for a user the leads and turns that name the user stay as they are.
\<close>

definition Lead_deleteOne :: "oid \<Rightarrow> db \<Rightarrow> db" where
  "Lead_deleteOne i s = s\<lparr>leads := filter (\<lambda>l. lead_id l \<noteq> i) (leads s)\<rparr>"

text \<open>\<open>validatUser.deleteOne()\<close>.\<close>

definition User_deleteOne :: "user \<Rightarrow> db \<Rightarrow> unit outcome" where
  "User_deleteOne u s = (Inr (), s\<lparr>users := filter (\<lambda>v. user_id v \<noteq> user_id u) (users s)\<rparr>)"

definition deleteMember :: "oid \<Rightarrow> oid option \<Rightarrow> db \<Rightarrow> unit outcome" where
  "deleteMember reqUser memberID s =
     (case memberID of
        None \<Rightarrow> (Inl CONFLICT, s)
      | Some m \<Rightarrow>
         (case User_findById m s of
            None \<Rightarrow> (Inl NOT_FOUND, s)
          | Some validatUser \<Rightarrow>
             if userRole validatUser = Admin then (Inl UNAUTHORIZED, s)
             else (case parent validatUser of
                     None \<Rightarrow> (Inl TypeError, s)
                   | Some p \<Rightarrow>
                      if p \<noteq> reqUser then (Inl UNAUTHORIZED, s)
                      else User_deleteOne validatUser s)))"

section \<open>Histories of requests\<close>

datatype request =
    PostNewLead jsDate "string option"
  | PostLeadForm "oid option" "string option" "string option" "string option"
  | PutLeadMessage "oid option" "string option"
  | PutMessage jsDate oid "oid option" "string option"
  | PutStatusUpdate oid "oid option" "string option"
  | PutLeadAssignee nat oid "oid option" "oid option"
  | GetLeadList jsDate
  | PutChatBotSettings settings_body
  | DeleteMember oid "oid option"

text \<open>The database a request leaves; \<open>getLeadList\<close> writes through \<open>foundMissedChats\<close>.\<close>

fun handle :: "request \<Rightarrow> db \<Rightarrow> db" where
  "handle (PostNewLead now m) s = snd (postNewLead now m s)"
| "handle (PostLeadForm i n e p) s = snd (postLeadForm i n e p s)"
| "handle (PutLeadMessage i m) s = snd (putLeadMessage i m s)"
| "handle (PutMessage now u i m) s = snd (putMessage now u i m s)"
| "handle (PutStatusUpdate u i st) s = snd (putStatusUpdate u i st s)"
| "handle (PutLeadAssignee h u i a) s = snd (putLeadAssignee h u i a s)"
| "handle (GetLeadList now) s = snd (foundMissedChats now s)"
| "handle (PutChatBotSettings body) s = snd (putChatBotSettings body s)"
| "handle (DeleteMember u m) s = snd (deleteMember u m s)"

definition run :: "request list \<Rightarrow> db \<Rightarrow> db" where
  "run rs s = fold handle rs s"


section \<open>Notions of the specification\<close>

text \<open>The missed-chat threshold in seconds: \<open>hour*3600 + minute*60 + second\<close>.\<close>

definition threshold :: "chatbotSettings \<Rightarrow> int" where
  "threshold cs =
     (case missedChatTimer cs of
        None \<Rightarrow> 0
      | Some t \<Rightarrow> nullish (hour t) 0 * 3600 + nullish (minute t) 0 * 60 + nullish (second t) 0)"

text \<open>\<open>sweepMissedChats\<close>: the database one run of \<open>foundMissedChats\<close> leaves.\<close>

definition sweep :: "jsDate \<Rightarrow> db \<Rightarrow> db" where
  "sweep now s = snd (foundMissedChats now s)"

text \<open>A lead that is flagged in \<open>s\<close> is still there and flagged in \<open>s'\<close>.\<close>

definition keeps_flag :: "oid \<Rightarrow> db \<Rightarrow> db \<Rightarrow> bool" where
  "keeps_flag i s s' =
     (\<forall>l. Lead_findById i s = Some l \<and> isMissedChat l \<longrightarrow>
          (\<exists>l'. Lead_findById i s' = Some l' \<and> isMissedChat l'))"

text \<open>A settings body that has all six fields, the strings not empty.\<close>

definition complete_body :: "settings_body \<Rightarrow> bool" where
  "complete_body body =
     (\<not> falsy (body_headerColor body) \<and> \<not> falsy (body_backgroundColor body)
      \<and> body_customizedMessages body \<noteq> None \<and> body_formPlaceholder body \<noteq> None
      \<and> \<not> falsy (body_welcomeMessage body) \<and> body_missedChatTimer body \<noteq> None)"

text \<open>Histories of the sequencer: leads are created and deleted.\<close>

datatype sequencer_event = CreateLead jsDate "string option" | DeleteLead oid

fun occur :: "sequencer_event \<Rightarrow> db \<Rightarrow> db" where
  "occur (CreateLead now m) s = snd (postNewLead now m s)"
| "occur (DeleteLead i) s = Lead_deleteOne i s"

section \<open>Concrete databases\<close>

text \<open>
  Midnight of 1 January 2025 (UTC), and the same day some milliseconds later.
\<close>

definition jan1 :: jsDate where
  "jan1 = \<lparr>getTime = 1735689600000, getFullYear = 2025, getMonth = 0, getDate = 1\<rparr>"

definition later :: "int \<Rightarrow> jsDate" where
  "later ms = jan1\<lparr>getTime := getTime jan1 + ms\<rparr>"

definition the_admin :: user where
  "the_admin = \<lparr>user_id = 1, userRole = Admin, parent = None\<rparr>"

definition a_member :: user where
  "a_member = \<lparr>user_id = 2, userRole = Member, parent = Some 1\<rparr>"

text \<open>After boot: the admin has registered and added one member, the default settings are loaded.\<close>

definition booted_db :: db where
  "booted_db = loadDefaultSettings
     \<lparr>users = [the_admin, a_member], leads = [], conversations = [], settings = [],
      nextObjectId = 3\<rparr>"

text \<open>One visitor has written: lead 3, assigned to the admin.\<close>

definition one_lead_db :: db where
  "one_lead_db = run [PostNewLead jan1 (Some ''hi'')] booted_db"

text \<open>Two visitors have written, the second nearly two hours after the first: leads 3 and 5.\<close>

definition two_leads_db :: db where
  "two_leads_db =
     run [PostNewLead jan1 (Some ''hi''), PostNewLead (later 7000000) (Some ''hello'')] booted_db"


text \<open>The booted database after the welcome message was set to \<open>Custom\<close>.\<close>

definition custom_db :: db where
  "custom_db = booted_db\<lparr>settings := [defaultSettings\<lparr>welcomeMessage := Some ''Custom''\<rparr>]\<rparr>"

text \<open>A request body for the settings with no \<open>welcomeMessage\<close> key under \<open>formPlaceholder\<close>.\<close>

definition a_settings_body :: settings_body where
  "a_settings_body =
     \<lparr>body_headerColor = Some ''#000000'', body_backgroundColor = Some ''#FFFFFF'',
      body_customizedMessages = Some [''Hello''],
      body_formPlaceholder = Some \<lparr>body_name = Some ''Name'', body_email = None, body_phone = None,
                                   body_submitButton = None, nested_welcomeMessage = None\<rparr>,
      body_welcomeMessage = Some ''Welcome to the shop'',
      body_missedChatTimer = Some \<lparr>hour = Some 0, minute = Some 5, second = Some 0\<rparr>\<rparr>"


section \<open>Properties of the ticket sequencer\<close>

lemma findOne_ticketID_None: "Lead_findOne_ticketID t ls = None \<longleftrightarrow> t \<notin> ticketID ` set ls"
  by (auto simp: Lead_findOne_ticketID_def find_None_iff)

lemma loop_unused: "getTicketID_loop ls base t count \<notin> ticketID ` set ls"
  by (induction ls base t count rule: getTicketID_loop.induct)
     (subst getTicketID_loop.simps, simp add: findOne_ticketID_None)





lemma distinct_postNewLead:
  "distinct (map ticketID (leads s)) \<Longrightarrow> distinct (map ticketID (leads (snd (postNewLead now m s))))"
  using loop_unused [of "leads s" "baseTicketID now" "baseTicketID now" 1]
  by (auto simp: postNewLead_def getTicketID_def LeadConversation_create_def Let_def
        split: option.splits)

lemma distinct_deleteOne:
  "distinct (map ticketID (leads s)) \<Longrightarrow> distinct (map ticketID (leads (Lead_deleteOne i s)))"
  by (simp add: Lead_deleteOne_def distinct_map_filter)

text \<open>
  Claim C9, as the code has it. The sequencer probes the leads that exist: over every
  history of lead creations and deletions the existing leads hold pairwise distinct codes.
  It keeps no record of the codes it has returned, so the code of a deleted lead is free
  again.
\<close>

theorem existing_codes_distinct:
  "distinct (map ticketID (leads s)) \<Longrightarrow> distinct (map ticketID (leads (fold occur es s)))"
proof (induction es arbitrary: s)
  case Nil
  then show ?case by simp
next
  case (Cons e es)
  have "distinct (map ticketID (leads (occur e s)))"
    using Cons.prems by (cases e) (simp_all add: distinct_postNewLead distinct_deleteOne)
  then show ?case using Cons.IH by simp
qed

theorem existing_codes_distinct_witness:
  "distinct (map ticketID (leads booted_db))
   \<and> distinct (map ticketID (leads (fold occur
        [CreateLead jan1 (Some ''a''), CreateLead jan1 (Some ''b''), DeleteLead 3,
         CreateLead jan1 (Some ''c'')] booted_db)))"
proof -
  have start: "distinct (map ticketID (leads booted_db))"
    by code_simp
  show ?thesis
    by (rule conjI [OF start existing_codes_distinct [OF start]])
qed

text \<open>
  The claim as the specification states it fails: the first lead of the day gets
  \<open>2025-0101\<close>; once it is deleted the next lead gets \<open>2025-0101\<close> again.
\<close>

theorem code_reused_after_delete:
  "map ticketID (leads (fold occur [CreateLead jan1 (Some ''hi'')] booted_db)) = [''2025-0101'']
   \<and> leads (fold occur [CreateLead jan1 (Some ''hi''), DeleteLead 3] booted_db) = []
   \<and> map ticketID (leads (fold occur [CreateLead jan1 (Some ''hi''), DeleteLead 3,
          CreateLead jan1 (Some ''hello'')] booted_db)) = [''2025-0101'']"
  by code_simp


section \<open>Properties of the analytics\<close>

lemma foldl_reducer:
  "foldl reducer acc ls =
     \<lparr>sum_acc = sum_acc acc + sum_list (filter (\<lambda>r. r \<noteq> 0) (map responseTime ls)),
      count_acc = count_acc acc + length (filter (\<lambda>r. r \<noteq> 0) (map responseTime ls))\<rparr>"
  by (induction ls arbitrary: acc) (simp_all add: reducer_def)

lemma Math_round_round: "Math_round x = round x"
  by (simp add: Math_round_def round_def)

text \<open>
  Claim C8. For every set of leads, the average response time of \<open>getLeadsAnalytics\<close> is
  the rounded mean of \<open>responseTime\<close> over the leads whose \<open>responseTime\<close> is not 0;
  the leads with 0 count neither in the sum nor in the number divided by; it is 0 when no
  lead has a \<open>responseTime\<close> other than 0.
\<close>

theorem averateResponseTime_excludes_zero:
  "averateResponseTime (getLeadsAnalytics s) =
     (let replied = filter (\<lambda>r. r \<noteq> 0) (map responseTime (leads s))
      in if replied = [] then 0
         else round (of_int (sum_list replied) / of_nat (length replied) :: rat))"
  by (simp add: getLeadsAnalytics_def foldl_reducer Math_round_round Let_def)

section \<open>Properties of the missed-chat sweep\<close>

lemma missedTimerMs_threshold: "missedTimerMs cs = threshold cs * 1000"
  by (simp add: missedTimerMs_def threshold_def nullish_def Let_def split: option.splits)

lemma updateMany_single:
  "updateMany q app [x] ds = Inr (map (\<lambda>d. if q d then app x d else d) ds)"
  by (simp add: updateMany_def conflicting_def)

lemma foundMissedChats_eq:
  "foundMissedChats now s =
     (case ChatbotSettings_findOne s of
        None \<Rightarrow> (Inl NOT_FOUND, s)
      | Some cs \<Rightarrow>
          if 0 < threshold cs
          then (Inr (), s\<lparr>leads := map (\<lambda>l. if responseTime l = 0 \<and> \<not> isMissedChat l
                                          \<and> createdAt l < getTime now - threshold cs * 1000
                                        then l\<lparr>isMissedChat := True\<rparr> else l) (leads s)\<rparr>)
          else (Inr (), s))"
  by (simp add: foundMissedChats_def updateMany_single missedTimerMs_threshold Let_def
           split: option.splits)

lemma findOne_settings_leads: "ChatbotSettings_findOne (s\<lparr>leads := ls\<rparr>) = ChatbotSettings_findOne s"
  by (simp add: ChatbotSettings_findOne_def)

text \<open>
  Claim C5. \<open>foundMissedChats\<close> is idempotent at a fixed current time: a second run
  leaves the database of the first, so the same leads are flagged. When the threshold
  \<open>hour*3600 + minute*60 + second\<close> of the settings is positive, a run succeeds and
  flags exactly the leads with \<open>responseTime = 0\<close>, \<open>isMissedChat = false\<close> and
  \<open>createdAt\<close> earlier than now minus the threshold, and changes nothing else.
\<close>

theorem foundMissedChats_idempotent:
  "sweep now (sweep now s) = sweep now s \<and>
   (\<forall>cs. ChatbotSettings_findOne s = Some cs \<and> 0 < threshold cs \<longrightarrow>
      foundMissedChats now s =
        (Inr (), s\<lparr>leads := map (\<lambda>l. if responseTime l = 0 \<and> isMissedChat l = False
                                        \<and> createdAt l < getTime now - threshold cs * 1000
                                     then l\<lparr>isMissedChat := True\<rparr> else l) (leads s)\<rparr>))"
proof
  show "sweep now (sweep now s) = sweep now s"
    by (cases "ChatbotSettings_findOne s")
       (simp_all add: sweep_def foundMissedChats_eq findOne_settings_leads o_def cong: if_cong)
next
  show "\<forall>cs. ChatbotSettings_findOne s = Some cs \<and> 0 < threshold cs \<longrightarrow>
      foundMissedChats now s =
        (Inr (), s\<lparr>leads := map (\<lambda>l. if responseTime l = 0 \<and> isMissedChat l = False
                                        \<and> createdAt l < getTime now - threshold cs * 1000
                                     then l\<lparr>isMissedChat := True\<rparr> else l) (leads s)\<rparr>)"
    by (simp add: foundMissedChats_eq)
qed

text \<open>
  Two hours after the first lead and with the default threshold of one hour, the sweep
  flags the first lead and not the second, and a second sweep changes nothing.
\<close>

theorem foundMissedChats_idempotent_witness:
  "(ChatbotSettings_findOne two_leads_db = Some defaultSettings \<and> 0 < threshold defaultSettings)
   \<and> sweep (later 7200000) (sweep (later 7200000) two_leads_db) = sweep (later 7200000) two_leads_db
   \<and> fst (foundMissedChats (later 7200000) two_leads_db) = Inr ()
   \<and> map isMissedChat (leads two_leads_db) = [False, False]
   \<and> map isMissedChat (leads (sweep (later 7200000) two_leads_db)) = [True, False]"
proof -
  have settings: "ChatbotSettings_findOne two_leads_db = Some defaultSettings \<and> 0 < threshold defaultSettings"
    by code_simp
  have twice: "sweep (later 7200000) (sweep (later 7200000) two_leads_db) = sweep (later 7200000) two_leads_db"
    using foundMissedChats_idempotent [of "later 7200000" two_leads_db] by (rule conjunct1)
  have "fst (foundMissedChats (later 7200000) two_leads_db) = Inr ()"
    using foundMissedChats_idempotent [of "later 7200000" two_leads_db] settings by simp
  moreover have "map isMissedChat (leads two_leads_db) = [False, False]
      \<and> map isMissedChat (leads (sweep (later 7200000) two_leads_db)) = [True, False]"
    by code_simp
  ultimately show ?thesis using settings twice by blast
qed


section \<open>Properties of the ticket handlers\<close>

lemma find_lead_id: "find (\<lambda>l. lead_id l = j) ls = Some f \<Longrightarrow> lead_id f = j"
  by (induction ls) (auto split: if_splits)

lemma find_replace_lead:
  "find (\<lambda>l. lead_id l = lead_id d) ls = Some f \<Longrightarrow>
   find (\<lambda>l. lead_id l = i) (replace_lead d ls) =
     (if i = lead_id d then Some d else find (\<lambda>l. lead_id l = i) ls)"
  by (induction ls) (auto split: if_splits)

lemma find_map_lead:
  "(\<And>l. lead_id (g l) = lead_id l) \<Longrightarrow>
   find (\<lambda>l. lead_id l = i) (map g ls) = map_option g (find (\<lambda>l. lead_id l = i) ls)"
  by (induction ls) auto

lemma find_append_Some: "find P xs = Some x \<Longrightarrow> find P (xs @ ys) = Some x"
  by (induction xs) (auto split: if_splits)

lemma find_append_new: "find P xs = None \<Longrightarrow> P x \<Longrightarrow> find P (xs @ [x]) = Some x"
  by (induction xs) (auto split: if_splits)

lemma leads_create [simp]: "leads (LeadConversation_create l m b a s) = leads s"
  by (simp add: LeadConversation_create_def)

lemma users_create [simp]: "users (LeadConversation_create l m b a s) = users s"
  by (simp add: LeadConversation_create_def)

lemma settings_create [simp]: "settings (LeadConversation_create l m b a s) = settings s"
  by (simp add: LeadConversation_create_def)

lemma users_save [simp]: "users (Lead_save d s) = users s"
  by (simp add: Lead_save_def)

lemma settings_save [simp]: "settings (Lead_save d s) = settings s"
  by (simp add: Lead_save_def)

lemma findById_create [simp]:
  "Lead_findById i (LeadConversation_create l m b a s) = Lead_findById i s"
  by (simp add: Lead_findById_def)

lemma findById_save:
  "Lead_findById (lead_id d) s = Some f \<Longrightarrow>
   Lead_findById i (Lead_save d s) = (if i = lead_id d then Some d else Lead_findById i s)"
  by (simp add: Lead_findById_def Lead_save_def find_replace_lead)

lemma findById_lead_id: "Lead_findById j s = Some f \<Longrightarrow> lead_id f = j"
  unfolding Lead_findById_def by (rule find_lead_id)

subsection \<open>The missed-chat flag is kept\<close>

lemma keeps_flag_refl: "keeps_flag i s s"
  by (simp add: keeps_flag_def)

lemma keeps_flag_trans: "keeps_flag i s s' \<Longrightarrow> keeps_flag i s' s'' \<Longrightarrow> keeps_flag i s s''"
  unfolding keeps_flag_def by blast

lemma keeps_flag_save:
  assumes "Lead_findById j s = Some f" "lead_id d = lead_id f" "isMissedChat f \<Longrightarrow> isMissedChat d"
  shows "keeps_flag i s (Lead_save d s)"
proof -
  have j: "lead_id d = j" using assms(1,2) by (simp add: findById_lead_id)
  have "Lead_findById i (Lead_save d s) = (if i = lead_id d then Some d else Lead_findById i s)"
    using assms(1) j by (simp add: findById_save)
  then show ?thesis using assms(1,3) j by (auto simp: keeps_flag_def)
qed

lemma keeps_flag_create:
  "keeps_flag i s s' \<Longrightarrow> keeps_flag i s (LeadConversation_create l m b a s')"
  by (simp add: keeps_flag_def)

lemma keeps_postNewLead: "keeps_flag i s (snd (postNewLead now m s))"
  by (auto simp: postNewLead_def keeps_flag_def Lead_findById_def find_append_Some Let_def
        split: option.splits)

lemma keeps_postLeadForm: "keeps_flag i s (snd (postLeadForm b n e p s))"
proof (cases "Lead_findById (the b) s")
  case None
  then show ?thesis by (simp add: postLeadForm_def keeps_flag_refl)
next
  case (Some f)
  note keep = keeps_flag_save [OF Some]
  show ?thesis using Some by (simp add: postLeadForm_def keep keeps_flag_refl)
qed

lemma keeps_putLeadMessage: "keeps_flag i s (snd (putLeadMessage b m s))"
  by (simp add: putLeadMessage_def keeps_flag_create keeps_flag_refl split: option.splits)

lemma keeps_putStatusUpdate: "keeps_flag i s (snd (putStatusUpdate u b st s))"
proof (cases "Lead_findById (the b) s")
  case None
  then show ?thesis by (simp add: putStatusUpdate_def keeps_flag_refl split: option.splits)
next
  case (Some f)
  note keep = keeps_flag_save [OF Some]
  show ?thesis using Some by (simp add: putStatusUpdate_def keep keeps_flag_refl split: option.splits)
qed

text \<open>
  The strict comparison of the two \<open>_id\<close> objects in \<open>putLeadAssignee\<close> never finds
  them identical: every request ends in an error and writes nothing.
\<close>

lemma putLeadAssignee_fails: "\<exists>e. putLeadAssignee h u b a s = (Inl e, s)"
  by (auto simp: putLeadAssignee_def strict_not_equal_def Let_def split: option.splits)

lemma keeps_putLeadAssignee: "keeps_flag i s (snd (putLeadAssignee h u b a s))"
  using putLeadAssignee_fails [of h u b a s] by (auto simp: keeps_flag_refl)

lemma keeps_putMessage: "keeps_flag i s (snd (putMessage now u b m s))"
proof (cases "Lead_findById (the b) s")
  case None
  then show ?thesis by (simp add: putMessage_def keeps_flag_refl split: option.splits)
next
  case (Some f)
  note keep = keeps_flag_save [OF Some]
  show ?thesis using Some
    by (simp add: putMessage_def keep keeps_flag_create keeps_flag_refl Let_def split: option.splits)
qed

lemma keeps_foundMissedChats: "keeps_flag i s (snd (foundMissedChats now s))"
  by (auto simp: foundMissedChats_eq keeps_flag_def Lead_findById_def find_map_lead
        split: option.splits)

lemma keeps_putChatBotSettings: "keeps_flag i s (snd (putChatBotSettings body s))"
  by (simp add: putChatBotSettings_def loadDefaultSettings_def keeps_flag_def Lead_findById_def
        Let_def split: list.splits)

lemma keeps_flag_users: "keeps_flag i s s' \<Longrightarrow> keeps_flag i s (s'\<lparr>users := us\<rparr>)"
  by (simp add: keeps_flag_def Lead_findById_def)

lemma keeps_User_deleteOne: "keeps_flag i s (snd (User_deleteOne u s))"
  by (simp add: User_deleteOne_def keeps_flag_users keeps_flag_refl)

lemma keeps_deleteMember: "keeps_flag i s (snd (deleteMember u m s))"
  by (simp add: deleteMember_def keeps_User_deleteOne keeps_flag_refl split: option.splits)

lemma keeps_handle: "keeps_flag i s (handle r s)"
  by (cases r)
     (simp_all add: keeps_postNewLead keeps_postLeadForm keeps_putLeadMessage keeps_putStatusUpdate
        keeps_putLeadAssignee keeps_putMessage keeps_foundMissedChats keeps_putChatBotSettings
        keeps_deleteMember)

lemma keeps_run: "keeps_flag i s (run rs s)"
proof (induction rs arbitrary: s)
  case Nil
  show ?case by (simp add: run_def keeps_flag_refl)
next
  case (Cons r rs)
  have "keeps_flag i s (handle r s)" by (rule keeps_handle)
  moreover have "keeps_flag i (handle r s) (run rs (handle r s))" by (rule Cons.IH)
  ultimately have "keeps_flag i s (run rs (handle r s))" by (rule keeps_flag_trans)
  then show ?case by (simp add: run_def)
qed

text \<open>
  Claim C6. For every lead and every sequence of requests (new leads, form submissions,
  visitor messages, staff messages, status updates, reassignments, sweeps, and also
  settings updates and member deletions), \<open>isMissedChat\<close> never goes from true to
  false: a lead that is flagged is still stored and flagged after the sequence.
\<close>

theorem isMissedChat_never_cleared:
  "Lead_findById i s = Some l \<Longrightarrow> isMissedChat l \<Longrightarrow>
   \<exists>l'. Lead_findById i (run rs s) = Some l' \<and> isMissedChat l'"
  using keeps_run [of i s rs] by (simp add: keeps_flag_def)

text \<open>
  Lead 3 is flagged by a sweep; the admin then answers it and resolves it, a visitor
  writes, and another sweep runs: it is still flagged.
\<close>

theorem isMissedChat_never_cleared_witness:
  "Lead_findById 3 (sweep (later 7200000) two_leads_db)
      = Some (the (Lead_findById 3 (sweep (later 7200000) two_leads_db)))
   \<and> isMissedChat (the (Lead_findById 3 (sweep (later 7200000) two_leads_db)))
   \<and> (\<exists>l'. Lead_findById 3
          (run [PutMessage (later 7300000) 1 (Some 3) (Some ''sorry''),
                PutStatusUpdate 1 (Some 3) (Some ''Resolved''),
                PutLeadMessage (Some 3) (Some ''thanks''),
                GetLeadList (later 9000000)] (sweep (later 7200000) two_leads_db)) = Some l'
        \<and> isMissedChat l')"
proof -
  have found: "Lead_findById 3 (sweep (later 7200000) two_leads_db)
      = Some (the (Lead_findById 3 (sweep (later 7200000) two_leads_db)))"
    by code_simp
  have flagged: "isMissedChat (the (Lead_findById 3 (sweep (later 7200000) two_leads_db)))"
    by code_simp
  show ?thesis
    using found flagged isMissedChat_never_cleared [OF found flagged] by blast
qed

text \<open>
  Claim C2 on the code: the admin asks to reassign an existing lead to an existing member,
  and the request is rejected with the database unchanged.
\<close>

theorem admin_reassign_rejected:
  "map userRole (users one_lead_db) = [Admin, Member]
   \<and> map user_id (users one_lead_db) = [1, 2]
   \<and> map lead_id (leads one_lead_db) = [3]
   \<and> putLeadAssignee 0 1 (Some 3) (Some 2) one_lead_db = (Inl UNAUTHORIZED, one_lead_db)"
  by code_simp


subsection \<open>Staff replies\<close>

lemma putMessage_reply:
  assumes "getReqUser u s = Some fu" "Lead_findById j s = Some f"
    and "currentAssignee f = Some (user_id fu)" "ChatbotSettings_findOne s = Some cs" "\<not> falsy m"
  shows "putMessage now u (Some j) m s =
     (let lead1 = (if responseTime f = 0
                   then f\<lparr>responseTime := (getTime now - createdAt f) div 1000\<rparr> else f);
          lead2 = (if 0 < threshold cs \<and> threshold cs * 1000 < getTime now - createdAt f
                   then lead1\<lparr>isMissedChat := True\<rparr> else lead1)
      in (Inr (), LeadConversation_create j (the m) Member_sender (Some (user_id fu)) (Lead_save lead2 s)))"
  using assms findById_lead_id [OF assms(2)]
  by (simp add: putMessage_def missedTimerMs_threshold Let_def)

lemma find_user_id: "find (\<lambda>u. user_id u = j) us = Some f \<Longrightarrow> user_id f = j"
  by (induction us) (auto split: if_splits)

lemma find_some_other: "find P xs = Some a \<Longrightarrow> Q a \<Longrightarrow> \<exists>b. find Q xs = Some b"
  by (induction xs) (auto split: if_splits)

lemma admin_is_user:
  assumes "User_findOne_Admin s = Some admin"
  shows "\<exists>fu. getReqUser (user_id admin) s = Some fu \<and> user_id fu = user_id admin"
proof -
  obtain fu where fu: "find (\<lambda>u. user_id u = user_id admin) (users s) = Some fu"
    using find_some_other [of "\<lambda>u. userRole u = Admin" "users s" admin
                              "\<lambda>u. user_id u = user_id admin"] assms
    by (auto simp: User_findOne_Admin_def)
  then show ?thesis by (auto simp: getReqUser_def User_findById_def dest: find_user_id)
qed

lemma postNewLead_created:
  assumes "User_findOne_Admin s = Some admin" "\<not> falsy m" "Lead_findById (nextObjectId s) s = None"
  shows "fst (postNewLead T m s) = Inr (nextObjectId s) \<and>
     Lead_findById (nextObjectId s) (snd (postNewLead T m s)) =
       Some \<lparr>lead_id = nextObjectId s, ticketID = getTicketID T (leads s),
             userName = None, userEmail = None, userPhone = None,
             isMissedChat = False, responseTime = 0,
             currentAssignee = Some (user_id admin), assigneeList = [user_id admin],
             isFirstMessageShared = True, isDetailsShared = False,
             status = Unresolved, createdAt = getTime T\<rparr>
     \<and> users (snd (postNewLead T m s)) = users s \<and> settings (snd (postNewLead T m s)) = settings s"
  using assms by (simp add: postNewLead_def Let_def Lead_findById_def find_append_new)

text \<open>
  Claim C7. A lead is created at time \<open>T\<close> with the missed-chat threshold at one hour.
  A staff reply at \<open>T\<close> + 30 min leaves \<open>isMissedChat\<close> false and sets
  \<open>responseTime\<close> to 1800 seconds; a second staff reply at \<open>T\<close> + 2 h leaves
  \<open>responseTime\<close> at 1800.
\<close>

theorem staff_reply_scenario:
  assumes admin: "User_findOne_Admin s = Some admin"
    and cs: "ChatbotSettings_findOne s = Some cs" and hour: "threshold cs = 3600"
    and fresh: "Lead_findById (nextObjectId s) s = None"
    and msgs: "\<not> falsy m0" "\<not> falsy m1" "\<not> falsy m2"
    and t1: "getTime now1 = getTime T + 30 * 60 * 1000"
    and t2: "getTime now2 = getTime T + 2 * 60 * 60 * 1000"
    and s1: "s1 = snd (postNewLead T m0 s)"
    and s2: "s2 = snd (putMessage now1 (user_id admin) (Some (nextObjectId s)) m1 s1)"
    and s3: "s3 = snd (putMessage now2 (user_id admin) (Some (nextObjectId s)) m2 s2)"
  shows "\<exists>l2 l3. Lead_findById (nextObjectId s) s2 = Some l2 \<and> isMissedChat l2 = False
            \<and> responseTime l2 = 1800
            \<and> Lead_findById (nextObjectId s) s3 = Some l3 \<and> responseTime l3 = 1800"
proof -
  let ?i = "nextObjectId s"
  define l1 where "l1 = \<lparr>lead_id = nextObjectId s, ticketID = getTicketID T (leads s),
             userName = None, userEmail = None, userPhone = None,
             isMissedChat = False, responseTime = 0,
             currentAssignee = Some (user_id admin), assigneeList = [user_id admin],
             isFirstMessageShared = True, isDetailsShared = False,
             status = Unresolved, createdAt = getTime T\<rparr>"
  from postNewLead_created [OF admin msgs(1) fresh, of T]
  have f1: "Lead_findById ?i s1 = Some l1" and u1: "users s1 = users s"
    and c1: "settings s1 = settings s"
    by (simp_all add: s1 l1_def)
  obtain fu where fu: "getReqUser (user_id admin) s = Some fu" "user_id fu = user_id admin"
    using admin_is_user [OF admin] by blast
  have fu1: "getReqUser (user_id admin) s1 = Some fu"
    using fu(1) u1 by (simp add: getReqUser_def User_findById_def)
  have cs1: "ChatbotSettings_findOne s1 = Some cs"
    using cs c1 by (simp add: ChatbotSettings_findOne_def)
  have a1: "currentAssignee l1 = Some (user_id fu)"
    by (simp add: l1_def fu(2))
  define l2 where "l2 = l1\<lparr>responseTime := 1800\<rparr>"
  have p2: "putMessage now1 (user_id admin) (Some ?i) m1 s1 =
      (Inr (), LeadConversation_create ?i (the m1) Member_sender (Some (user_id fu)) (Lead_save l2 s1))"
    unfolding putMessage_reply [OF fu1 f1 a1 cs1 msgs(2)]
    by (simp add: l2_def l1_def t1 hour)
  have idl2: "lead_id l2 = ?i" by (simp add: l2_def l1_def)
  have f2: "Lead_findById ?i s2 = Some l2"
    using f1 idl2 by (simp add: s2 p2 findById_save)
  have fu2: "getReqUser (user_id admin) s2 = Some fu"
    using fu1 by (simp add: s2 p2 getReqUser_def User_findById_def)
  have cs2: "ChatbotSettings_findOne s2 = Some cs"
    using cs1 by (simp add: s2 p2 ChatbotSettings_findOne_def)
  have a2: "currentAssignee l2 = Some (user_id fu)"
    by (simp add: l2_def a1)
  define l3 where "l3 = l2\<lparr>isMissedChat := True\<rparr>"
  have p3: "putMessage now2 (user_id admin) (Some ?i) m2 s2 =
      (Inr (), LeadConversation_create ?i (the m2) Member_sender (Some (user_id fu)) (Lead_save l3 s2))"
    unfolding putMessage_reply [OF fu2 f2 a2 cs2 msgs(3)]
    by (simp add: l3_def l2_def l1_def t2 hour)
  have idl3: "lead_id l3 = ?i" by (simp add: l3_def idl2)
  have f3: "Lead_findById ?i s3 = Some l3"
    using f2 idl3 by (simp add: s3 p3 findById_save)
  show ?thesis
    using f2 f3 by (simp add: l3_def l2_def l1_def)
qed

text \<open>
  The scenario on the booted database: the lead is lead 3, created at midnight, and the
  admin answers 1800000 ms and 7200000 ms later.
\<close>

theorem staff_reply_scenario_witness:
  "(User_findOne_Admin booted_db = Some the_admin
    \<and> ChatbotSettings_findOne booted_db = Some defaultSettings
    \<and> threshold defaultSettings = 3600
    \<and> Lead_findById (nextObjectId booted_db) booted_db = None
    \<and> getTime (later 1800000) = getTime jan1 + 30 * 60 * 1000
    \<and> getTime (later 7200000) = getTime jan1 + 2 * 60 * 60 * 1000)
   \<and> (\<exists>l2 l3.
        Lead_findById (nextObjectId booted_db)
          (snd (putMessage (later 1800000) (user_id the_admin) (Some (nextObjectId booted_db)) (Some ''hello'')
             (snd (postNewLead jan1 (Some ''hi'') booted_db)))) = Some l2
        \<and> isMissedChat l2 = False \<and> responseTime l2 = 1800
        \<and> Lead_findById (nextObjectId booted_db)
          (snd (putMessage (later 7200000) (user_id the_admin) (Some (nextObjectId booted_db)) (Some ''again'')
             (snd (putMessage (later 1800000) (user_id the_admin) (Some (nextObjectId booted_db)) (Some ''hello'')
                (snd (postNewLead jan1 (Some ''hi'') booted_db)))))) = Some l3
        \<and> responseTime l3 = 1800)"
proof -
  have admin: "User_findOne_Admin booted_db = Some the_admin" by code_simp
  have cs: "ChatbotSettings_findOne booted_db = Some defaultSettings" by code_simp
  have hour: "threshold defaultSettings = 3600" by code_simp
  have fresh: "Lead_findById (nextObjectId booted_db) booted_db = None" by code_simp
  have m0: "\<not> falsy (Some ''hi'')" and m1: "\<not> falsy (Some ''hello'')"
    and m2: "\<not> falsy (Some ''again'')"
    by (simp_all add: falsy_def)
  have t1: "getTime (later 1800000) = getTime jan1 + 30 * 60 * 1000"
    by (simp add: later_def)
  have t2: "getTime (later 7200000) = getTime jan1 + 2 * 60 * 60 * 1000"
    by (simp add: later_def)
  note scenario = staff_reply_scenario [OF admin cs hour fresh m0 m1 m2 t1 t2 refl refl refl]
  show ?thesis
    using admin cs hour fresh t1 t2 scenario by blast
qed

text \<open>
  Claim C1 on the code: a staff message 400 ms after the lead was created is logged and
  leaves \<open>responseTime\<close> at 0, the floor of 0.4 s; the second staff message, 5 s after
  the creation, then sets it to 5.
\<close>

theorem fast_reply_leaves_responseTime_zero:
  "map responseTime (leads (run [PostNewLead jan1 (Some ''hi''),
        PutMessage (later 400) 1 (Some 3) (Some ''hello'')] booted_db)) = [0]
   \<and> map sendBy (conversations (run [PostNewLead jan1 (Some ''hi''),
        PutMessage (later 400) 1 (Some 3) (Some ''hello'')] booted_db)) = [Lead, Member_sender]
   \<and> map responseTime (leads (run [PostNewLead jan1 (Some ''hi''),
        PutMessage (later 400) 1 (Some 3) (Some ''hello''),
        PutMessage (later 5000) 1 (Some 3) (Some ''again'')] booted_db)) = [5]"
  by code_simp

section \<open>Properties of the settings\<close>

lemma putChatBotSettings_complete:
  assumes "complete_body body" and "settings s = c # cs"
  shows "putChatBotSettings body s =
     (Inr (), s\<lparr>settings :=
        \<lparr>headerColor = the (body_headerColor body),
         backgroundColor = the (body_backgroundColor body),
         customizedMessages = the (body_customizedMessages body),
         formPlaceholder =
           \<lparr>placeholder_name = Some (nullish (body_name (the (body_formPlaceholder body))) ''Your name''),
            placeholder_email =
              Some (nullish (body_email (the (body_formPlaceholder body))) ''+1 (000) 000-0000''),
            placeholder_phone =
              Some (nullish (body_phone (the (body_formPlaceholder body))) ''example@gmail.com''),
            placeholder_submitButton =
              Some (nullish (body_submitButton (the (body_formPlaceholder body))) ''Thank You!'')\<rparr>,
         welcomeMessage =
           Some (nullish (nested_welcomeMessage (the (body_formPlaceholder body))) default_welcomeMessage),
         missedChatTimer = Some \<lparr>hour = hour (the (body_missedChatTimer body)),
                                  minute = minute (the (body_missedChatTimer body)),
                                  second = second (the (body_missedChatTimer body))\<rparr>\<rparr> # cs\<rparr>)"
  using assms by (simp add: putChatBotSettings_def complete_body_def Let_def)

lemma putChatBotSettings_incomplete:
  "\<not> complete_body body \<Longrightarrow> putChatBotSettings body s = (Inl CONFLICT, s)"
  by (auto simp: putChatBotSettings_def complete_body_def)

lemma putChatBotSettings_no_settings:
  "complete_body body \<Longrightarrow> settings s = [] \<Longrightarrow>
   putChatBotSettings body s = (Inl EXPECTATION_FAILED, loadDefaultSettings s)"
  by (simp add: putChatBotSettings_def complete_body_def Let_def)

text \<open>
  Claim C10, as the code has it. A \<open>putChatBotSettings\<close> request succeeds exactly when
  its body has all six fields, the top-level \<open>welcomeMessage\<close> among them and not empty,
  and a settings document is stored. A successful request whose \<open>formPlaceholder\<close> has
  no \<open>welcomeMessage\<close> key replaces the first settings document by one whose welcome
  message is the default string, whatever was stored before. The top-level
  \<open>welcomeMessage\<close> is read by the validation only: an absent or empty one is rejected
  with nothing written, and every other value gives the same outcome.
\<close>

theorem putChatBotSettings_welcomeMessage:
  "(fst (putChatBotSettings body s) = Inr () \<longleftrightarrow> complete_body body \<and> settings s \<noteq> [])
   \<and> (\<forall>fp. fst (putChatBotSettings body s) = Inr () \<and> body_formPlaceholder body = Some fp
            \<and> nested_welcomeMessage fp = None \<longrightarrow>
         (\<exists>c'. settings (snd (putChatBotSettings body s)) = c' # tl (settings s)
               \<and> welcomeMessage c' = Some default_welcomeMessage)
         \<and> (\<forall>w. \<not> falsy w \<longrightarrow>
               putChatBotSettings (body\<lparr>body_welcomeMessage := w\<rparr>) s = putChatBotSettings body s)
         \<and> (\<forall>w. falsy w \<longrightarrow>
               putChatBotSettings (body\<lparr>body_welcomeMessage := w\<rparr>) s = (Inl CONFLICT, s)))"
proof (intro conjI allI impI)
  show "fst (putChatBotSettings body s) = Inr () \<longleftrightarrow> complete_body body \<and> settings s \<noteq> []"
  proof (cases "complete_body body")
    case False
    then show ?thesis by (simp add: putChatBotSettings_incomplete)
  next
    case True
    then show ?thesis
      by (cases "settings s")
         (simp_all add: putChatBotSettings_no_settings putChatBotSettings_complete)
  qed
next
  fix fp
  assume a: "fst (putChatBotSettings body s) = Inr () \<and> body_formPlaceholder body = Some fp
            \<and> nested_welcomeMessage fp = None"
  have complete: "complete_body body"
    using a putChatBotSettings_incomplete [of body s] by (cases "complete_body body") simp_all
  obtain c cs where stored: "settings s = c # cs"
    using a complete putChatBotSettings_no_settings [of body s] by (cases "settings s") simp_all
  show "\<exists>c'. settings (snd (putChatBotSettings body s)) = c' # tl (settings s)
               \<and> welcomeMessage c' = Some default_welcomeMessage"
    using a by (simp add: putChatBotSettings_complete [OF complete stored] stored nullish_def)
  show "putChatBotSettings (body\<lparr>body_welcomeMessage := w\<rparr>) s = putChatBotSettings body s"
    if "\<not> falsy w" for w
  proof -
    have "complete_body (body\<lparr>body_welcomeMessage := w\<rparr>)"
      using complete that by (simp add: complete_body_def)
    then show ?thesis
      by (simp add: putChatBotSettings_complete [OF _ stored] complete)
  qed
  show "putChatBotSettings (body\<lparr>body_welcomeMessage := w\<rparr>) s = (Inl CONFLICT, s)"
    if "falsy w" for w
    using that by (simp add: putChatBotSettings_incomplete complete_body_def)
qed

text \<open>
  The database stores the welcome message \<open>Custom\<close>; the body has the top-level
  welcome message \<open>Welcome to the shop\<close> and none under \<open>formPlaceholder\<close>. The
  request succeeds and the stored message becomes the default; with the top-level
  \<open>Hello\<close> the outcome is the same.
\<close>

theorem putChatBotSettings_welcomeMessage_witness:
  "(complete_body a_settings_body
    \<and> map welcomeMessage (settings custom_db) = [Some ''Custom'']
    \<and> body_welcomeMessage a_settings_body = Some ''Welcome to the shop''
    \<and> nested_welcomeMessage (the (body_formPlaceholder a_settings_body)) = None
    \<and> fst (putChatBotSettings a_settings_body custom_db) = Inr ())
   \<and> map welcomeMessage (settings (snd (putChatBotSettings a_settings_body custom_db)))
        = [Some default_welcomeMessage]
   \<and> putChatBotSettings (a_settings_body\<lparr>body_welcomeMessage := Some ''Hello''\<rparr>) custom_db
        = putChatBotSettings a_settings_body custom_db"
proof -
  have facts: "complete_body a_settings_body
    \<and> map welcomeMessage (settings custom_db) = [Some ''Custom'']
    \<and> body_welcomeMessage a_settings_body = Some ''Welcome to the shop''
    \<and> nested_welcomeMessage (the (body_formPlaceholder a_settings_body)) = None"
    by code_simp
  have stored: "settings custom_db \<noteq> []"
    by code_simp
  have fp: "body_formPlaceholder a_settings_body = Some (the (body_formPlaceholder a_settings_body))"
    by code_simp
  have after: "map welcomeMessage (settings (snd (putChatBotSettings a_settings_body custom_db)))
        = [Some default_welcomeMessage]"
    by code_simp
  have hello: "\<not> falsy (Some ''Hello'')"
    by (simp add: falsy_def)
  note inst = putChatBotSettings_welcomeMessage [of a_settings_body custom_db]
  have ok: "fst (putChatBotSettings a_settings_body custom_db) = Inr ()"
    using inst facts stored by blast
  have "putChatBotSettings (a_settings_body\<lparr>body_welcomeMessage := Some ''Hello''\<rparr>) custom_db
        = putChatBotSettings a_settings_body custom_db"
    using inst ok fp facts hello by blast
  then show ?thesis
    using facts ok after by blast
qed

text \<open>
  The claim as stated says that the top-level field is never read. It is read: the body
  above succeeds, and the same body with an empty or an absent top-level
  \<open>welcomeMessage\<close> is rejected and leaves \<open>Custom\<close> stored.
\<close>

theorem top_level_welcomeMessage_is_read:
  "fst (putChatBotSettings a_settings_body custom_db) = Inr ()
   \<and> putChatBotSettings (a_settings_body\<lparr>body_welcomeMessage := Some []\<rparr>) custom_db
        = (Inl CONFLICT, custom_db)
   \<and> putChatBotSettings (a_settings_body\<lparr>body_welcomeMessage := None\<rparr>) custom_db
        = (Inl CONFLICT, custom_db)
   \<and> map welcomeMessage (settings custom_db) = [Some ''Custom'']"
  by code_simp

section \<open>Properties of the deletion of a member\<close>

text \<open>A member's deletion writes the users only.\<close>

lemma deleteMember_leaves_leads:
  "leads (snd (deleteMember r m s)) = leads s
   \<and> conversations (snd (deleteMember r m s)) = conversations s"
  by (simp add: deleteMember_def User_deleteOne_def split: option.splits)


text \<open>Deleting the admin is rejected and writes nothing.\<close>

lemma deleteMember_admin_rejected:
  "User_findById m s = Some u \<Longrightarrow> userRole u = Admin \<Longrightarrow>
   deleteMember r (Some m) s = (Inl UNAUTHORIZED, s)"
  by (simp add: deleteMember_def)

end
